theory Spec2Isabelle
  imports Complex_Main "HOL-Library.Multiset" "HOL-Library.Char_ord" "HOL-Library.List_Lexorder"
    "HOL-Library.Log_Nat"
begin

section \<open>Data model of the time tracker (src/app/page.tsx)\<close>

text \<open>
  The component \<open>TimeTracker\<close> keeps its state in React hooks and in the browser's
  \<open>localStorage\<close>. The embedding passes that state explicitly: every handler takes the
  state (and the value \<open>Date.now()\<close> reads) and returns the state after all its
  \<open>set...\<close> calls and storage writes, applied in the order the source issues them.

  The file page.tsx holds the component twice; the embedding follows the first text, the
  one with the memoized \<open>handleStop\<close>. In the second, \<open>parseInt\<close> is called without a
  radix, \<open>loadSessions\<close> does not catch a parse error, the resume branch does not test
  \<open>savedTimerDuration\<close>, and the interval keeps the \<open>handleStop\<close> of the render that
  installed it; the bodies of the handlers are the same.

  JavaScript numbers that the controller handles are integers (millisecond timestamps,
  whole seconds) or \<open>NaN\<close>, which \<open>parseInt\<close> yields on unparseable text; they are
  modelled by the type \<open>number\<close>. The fields of a \<open>Session\<close> built by \<open>handleStop\<close> are
  always integers. The aggregation code divides and adds such numbers; there every
  operation is the one of IEEE doubles, rounding included (type \<open>double\<close> below).
\<close>

datatype Mode = Stopwatch | Timer
datatype ViewMode = Tracker | Analytics
datatype TimeRange = Today | Week | Month | Year

datatype number = NaN | Num int

datatype error = RangeError

text \<open>
  A double: a finite one is held by its exact value (the sign of a zero is not kept).
\<close>

datatype double = Finite rat | PosInfinity | NegInfinity | NotANumber

record Session =
  startTime :: int
  endTime :: "int option"
  duration :: int
  mode :: Mode
  date :: string

text \<open>
  The fields \<open>date\<close> and \<open>sessions\<close> of \<open>DayData\<close> are \<open>dd_date\<close> and \<open>dd_sessions\<close>
  here, the plain names being taken by \<open>Session\<close> and by the hook.
\<close>

record DayData =
  dd_date :: string
  totalMinutes :: double
  dd_sessions :: "Session list"

text \<open>
  The entry \<open>allSessions\<close> of the storage holds the JSON text of the session list;
  \<open>Malformed\<close> stands for a text that \<open>JSON.parse\<close> rejects. The entry \<open>trackerMode\<close>
  holds a mode name as \<open>handleStart\<close> wrote it; the three numeric entries hold text.
  The field \<open>ls_k\<close> is the entry with the key \<open>k\<close>, absent when \<open>None\<close>.
\<close>

datatype archive = Malformed | Archive "Session list"

record storage =
  ls_trackerMode :: "Mode option"
  ls_startTime :: "string option"
  ls_timerStartTime :: "string option"
  ls_timerDuration :: "string option"
  ls_allSessions :: "archive option"

text \<open>
  The hooks of the component; \<open>st_mode\<close> and \<open>st_startTime\<close> are the hooks \<open>mode\<close> and
  \<open>startTime\<close> (the plain names are the fields of \<open>Session\<close>).
\<close>

record TimeTracker =
  st_mode :: Mode
  viewMode :: ViewMode
  isRunning :: bool
  elapsedTime :: number
  timerDuration :: number
  timerRemaining :: number
  st_startTime :: "number option"
  sessions :: "Session list"
  timeRange :: TimeRange
  isEditingTimer :: bool
  tempMinutes :: string
  localStorage :: storage

section \<open>Built-ins of the platform\<close>

subsection \<open>Number arithmetic with NaN\<close>

definition num_sub :: "number \<Rightarrow> number \<Rightarrow> number" where
  "num_sub a b = (case a of NaN \<Rightarrow> NaN | Num x \<Rightarrow> (case b of NaN \<Rightarrow> NaN | Num y \<Rightarrow> Num (x - y)))"

text \<open>\<open>Math.floor(a / 1000)\<close> on an integer is the floor division.\<close>

definition num_floor_div1000 :: "number \<Rightarrow> number" where
  "num_floor_div1000 a = (case a of NaN \<Rightarrow> NaN | Num x \<Rightarrow> Num (x div 1000))"

text \<open>\<open>Math.max(0, a)\<close>: \<open>NaN\<close> when the argument is.\<close>

definition num_max0 :: "number \<Rightarrow> number" where
  "num_max0 a = (case a of NaN \<Rightarrow> NaN | Num x \<Rightarrow> Num (max 0 x))"

text \<open>\<open>a <= 0\<close>: every comparison with \<open>NaN\<close> is false.\<close>

definition num_le0 :: "number \<Rightarrow> bool" where
  "num_le0 a = (case a of NaN \<Rightarrow> False | Num x \<Rightarrow> x \<le> 0)"

text \<open>
  The truth value of a \<open>number | null\<close>: \<open>null\<close>, \<open>NaN\<close> and \<open>0\<close> are falsy. The result
  is the integer of a truthy value.
\<close>

definition truthy :: "number option \<Rightarrow> int option" where
  "truthy v = (case v of None \<Rightarrow> None | Some NaN \<Rightarrow> None
     | Some (Num n) \<Rightarrow> (if n = 0 then None else Some n))"

text \<open>A string is truthy when it is present and not empty.\<close>

definition truthyStr :: "string option \<Rightarrow> string option" where
  "truthyStr v = (case v of None \<Rightarrow> None | Some s \<Rightarrow> (if s = [] then None else Some s))"

subsection \<open>Arithmetic of IEEE doubles\<close>

text \<open>
  Every operation on doubles yields the exact result rounded to the nearest double, a tie
  going to the even significand; a result beyond the largest double is an infinity.
  \<open>ilog2 a\<close> is the exponent \<open>e\<close> with \<open>2^e \<le> a < 2^(e+1)\<close> of a positive \<open>a\<close>; a double
  of that exponent is a multiple of \<open>2^(e-52)\<close>, and of \<open>2^(-1074)\<close> below the normal range.
\<close>

definition pow2 :: "int \<Rightarrow> rat" where
  "pow2 e = (if 0 \<le> e then 2 ^ nat e else 1 / 2 ^ nat (- e))"

definition ilog2 :: "rat \<Rightarrow> int" where
  "ilog2 a = (let (p, q) = quotient_of a; e0 = bitlen p - bitlen q
              in if pow2 e0 \<le> a then e0 else e0 - 1)"

definition roundHalfEven :: "rat \<Rightarrow> int" where
  "roundHalfEven x = (let n = \<lfloor>x\<rfloor>; r = x - of_int n
     in if r < 1 / 2 then n else if 1 / 2 < r then n + 1 else if even n then n else n + 1)"

definition roundToDouble :: "rat \<Rightarrow> double" where
  "roundToDouble x = (if x = 0 then Finite 0 else
     (let e = max (ilog2 \<bar>x\<bar>) (- 1022);
          ulp = pow2 (e - 52);
          n = roundHalfEven (x / ulp)
      in if 1023 < e \<or> (e = 1023 \<and> 2 ^ 53 \<le> \<bar>n\<bar>)
         then (if 0 < x then PosInfinity else NegInfinity)
         else Finite (of_int n * ulp)))"

text \<open>The sum \<open>x + y\<close> of two doubles.\<close>

fun fadd :: "double \<Rightarrow> double \<Rightarrow> double" where
  "fadd (Finite a) (Finite b) = roundToDouble (a + b)"
| "fadd NotANumber y = NotANumber"
| "fadd x NotANumber = NotANumber"
| "fadd PosInfinity NegInfinity = NotANumber"
| "fadd NegInfinity PosInfinity = NotANumber"
| "fadd PosInfinity y = PosInfinity"
| "fadd x PosInfinity = PosInfinity"
| "fadd NegInfinity y = NegInfinity"
| "fadd x NegInfinity = NegInfinity"

text \<open>
  \<open>x / c\<close> and \<open>x * c\<close> for a constant \<open>c\<close> that is a positive finite double (the code
  divides by 1000 and by 60 and multiplies by 100).
\<close>

definition fdiv_by :: "rat \<Rightarrow> double \<Rightarrow> double" where
  "fdiv_by c x = (case x of Finite a \<Rightarrow> roundToDouble (a / c) | PosInfinity \<Rightarrow> PosInfinity
     | NegInfinity \<Rightarrow> NegInfinity | NotANumber \<Rightarrow> NotANumber)"


text \<open>
  An integer field of a session as a double: JSON text and integer arithmetic below
  \<open>2^53\<close> give the integer itself, a longer integer literal the nearest double.
\<close>

definition ofInt :: "int \<Rightarrow> double" where
  "ofInt n = roundToDouble (of_int n)"


text \<open>
  \<open>Math.round\<close>: the integer nearest to the exact value, a half going upwards; the
  result is a double again.
\<close>

definition Math_round :: "double \<Rightarrow> double" where
  "Math_round x = (case x of Finite a \<Rightarrow> Finite (of_int \<lfloor>a + 1 / 2\<rfloor>) | PosInfinity \<Rightarrow> PosInfinity
     | NegInfinity \<Rightarrow> NegInfinity | NotANumber \<Rightarrow> NotANumber)"

subsection \<open>parseInt(s, 10) and Number.prototype.toString\<close>

definition isStrWhiteSpaceChar :: "char \<Rightarrow> bool" where
  "isStrWhiteSpaceChar c = (c = CHR 0x09 \<or> c = CHR 0x0A \<or> c = CHR 0x0B \<or> c = CHR 0x0C
     \<or> c = CHR 0x0D \<or> c = CHR '' '')"

definition digitValue :: "char \<Rightarrow> nat option" where
  "digitValue c = (let n = (of_char c :: nat) in if 48 \<le> n \<and> n \<le> 57 then Some (n - 48) else None)"

definition isDigit :: "char \<Rightarrow> bool" where
  "isDigit c = (case digitValue c of None \<Rightarrow> False | Some d \<Rightarrow> True)"

fun parseDigits :: "string \<Rightarrow> nat \<Rightarrow> nat" where
  "parseDigits [] acc = acc"
| "parseDigits (c # cs) acc =
     (case digitValue c of None \<Rightarrow> acc | Some d \<Rightarrow> parseDigits cs (acc * 10 + d))"

text \<open>
  \<open>parseInt(s, 10)\<close> as ECMAScript defines it: leading white space is skipped, one sign is
  read, the longest prefix of decimal digits is the value, and no digit at all gives
  \<open>NaN\<close>. With the radix given as 10 no \<open>0x\<close> prefix is recognised. A \<open>char\<close> is a
  byte, so the white space is the ASCII one; the value is an unbounded integer, without
  the rounding of a double beyond \<open>2^53\<close>.
\<close>

definition parseInt :: "string \<Rightarrow> number" where
  "parseInt s =
     (let t = dropWhile isStrWhiteSpaceChar s;
          sign = (case t of [] \<Rightarrow> 1 | c # cs \<Rightarrow> (if c = CHR ''-'' then - 1 else (1::int)));
          u = (case t of [] \<Rightarrow> [] | c # cs \<Rightarrow> (if c = CHR ''+'' \<or> c = CHR ''-'' then cs else t));
          z = takeWhile isDigit u
      in if z = [] then NaN else Num (sign * int (parseDigits z 0)))"

definition digitChar :: "nat \<Rightarrow> char" where
  "digitChar d = ''0123456789'' ! d"

text \<open>The decimal digits of a natural number.\<close>

fun showNat :: "nat \<Rightarrow> string" where
  "showNat n = (if n < 10 then [digitChar n]
                else showNat (n div 10) @ [digitChar (n mod 10)])"

declare showNat.simps [simp del]

definition toString :: "number \<Rightarrow> string" where
  "toString a = (case a of NaN \<Rightarrow> ''NaN''
     | Num x \<Rightarrow> (if x < 0 then CHR ''-'' # showNat (nat (- x)) else showNat (nat x)))"

text \<open>\<open>s.padStart(n, '0')\<close>.\<close>

definition padStart0 :: "nat \<Rightarrow> string \<Rightarrow> string" where
  "padStart0 n s = replicate (n - length s) (CHR ''0'') @ s"

subsection \<open>Date: time values, the civil calendar and toISOString\<close>

text \<open>
  A \<open>Date\<close> holds a time value, the milliseconds since the epoch in UTC, or is invalid
  when the number given to the constructor lies outside \<open>\<plusminus>8.64e15\<close> (\<open>TimeClip\<close>).
\<close>

definition TimeClip :: "int \<Rightarrow> int option" where
  "TimeClip t = (if \<bar>t\<bar> > 8640000000000000 then None else Some t)"

definition msPerDay :: int where
  "msPerDay = 86400000"

text \<open>Year, month (1 to 12) and day of the month of a day number (days since the epoch).\<close>

definition civil_from_days :: "int \<Rightarrow> int \<times> int \<times> int" where
  "civil_from_days z0 =
     (let z = z0 + 719468;
          era = z div 146097;
          doe = z mod 146097;
          yoe = (doe - doe div 1460 + doe div 36524 - doe div 146096) div 365;
          doy = doe - (365 * yoe + yoe div 4 - yoe div 100);
          mp = (5 * doy + 2) div 153;
          d = doy - (153 * mp + 2) div 5 + 1;
          m = (if mp < 10 then mp + 3 else mp - 9);
          y = yoe + era * 400 + (if m \<le> 2 then 1 else 0)
      in (y, m, d))"

text \<open>The day number of a year, month (1 to 12) and day of the month.\<close>

definition days_from_civil :: "int \<Rightarrow> int \<Rightarrow> int \<Rightarrow> int" where
  "days_from_civil y0 m d =
     (let y = (if m \<le> 2 then y0 - 1 else y0);
          era = y div 400;
          yoe = y mod 400;
          mp = (if m > 2 then m - 3 else m + 9);
          doy = (153 * mp + 2) div 5 + d - 1;
          doe = yoe * 365 + yoe div 4 - yoe div 100 + doy
      in era * 146097 + doe - 719468)"

definition yearString :: "int \<Rightarrow> string" where
  "yearString y = (if 0 \<le> y \<and> y \<le> 9999 then padStart0 4 (showNat (nat y))
     else (if y < 0 then CHR ''-'' else CHR ''+'') # padStart0 6 (showNat (nat \<bar>y\<bar>)))"

text \<open>The text \<open>YYYY-MM-DDTHH:mm:ss.sssZ\<close> of a time value, in UTC.\<close>

definition isoFormat :: "int \<Rightarrow> string" where
  "isoFormat t =
     (let (y, m, d) = civil_from_days (t div msPerDay);
          ms = t mod msPerDay
      in yearString y @ ''-'' @ padStart0 2 (showNat (nat m)) @ ''-'' @ padStart0 2 (showNat (nat d))
         @ ''T'' @ padStart0 2 (showNat (nat (ms div 3600000)))
         @ '':'' @ padStart0 2 (showNat (nat (ms div 60000 mod 60)))
         @ '':'' @ padStart0 2 (showNat (nat (ms div 1000 mod 60)))
         @ ''.'' @ padStart0 3 (showNat (nat (ms mod 1000))) @ ''Z'')"

text \<open>\<open>new Date(t).toISOString()\<close> throws a RangeError on an invalid date.\<close>

definition toISOString :: "int \<Rightarrow> string option" where
  "toISOString t = (case TimeClip t of None \<Rightarrow> None | Some tv \<Rightarrow> Some (isoFormat tv))"

text \<open>\<open>s.split('T')[0]\<close>: the text before the first \<open>T\<close>.\<close>

definition split_T_0 :: "string \<Rightarrow> string" where
  "split_T_0 s = takeWhile (\<lambda>c. c \<noteq> CHR ''T'') s"

section \<open>The tracker controller\<close>

text \<open>The state of the hooks at the first render, over a given storage.\<close>

definition initialState :: "storage \<Rightarrow> TimeTracker" where
  "initialState ls = \<lparr> st_mode = Stopwatch, viewMode = Tracker, isRunning = False,
     elapsedTime = Num 0, timerDuration = Num (25 * 60), timerRemaining = Num (25 * 60),
     st_startTime = None, sessions = [], timeRange = Today, isEditingTimer = False,
     tempMinutes = ''25'', localStorage = ls \<rparr>"

definition loadSessions :: "TimeTracker \<Rightarrow> TimeTracker" where
  "loadSessions st = (case ls_allSessions (localStorage st) of
       None \<Rightarrow> st
     | Some Malformed \<Rightarrow> st
     | Some (Archive xs) \<Rightarrow> st\<lparr>sessions := xs\<rparr>)"

definition saveSessions :: "TimeTracker \<Rightarrow> Session list \<Rightarrow> TimeTracker" where
  "saveSessions st newSessions =
     st\<lparr>sessions := newSessions,
        localStorage := (localStorage st)\<lparr>ls_allSessions := Some (Archive newSessions)\<rparr>\<rparr>"

text \<open>The effect that runs once on mount and restores a run from the storage.\<close>

definition mountEffect :: "TimeTracker \<Rightarrow> int \<Rightarrow> TimeTracker" where
  "mountEffect st0 now =
     (let savedMode = ls_trackerMode (localStorage st0);
          savedStartTime = ls_startTime (localStorage st0);
          savedTimerDuration = ls_timerDuration (localStorage st0);
          savedTimerStart = ls_timerStartTime (localStorage st0);
          st1 = (case savedMode of None \<Rightarrow> st0 | Some m \<Rightarrow> st0\<lparr>st_mode := m\<rparr>);
          st2 = (case truthyStr savedTimerDuration of None \<Rightarrow> st1
                 | Some d \<Rightarrow> st1\<lparr>timerDuration := parseInt d, timerRemaining := parseInt d\<rparr>);
          st3 = (case truthyStr savedStartTime of None \<Rightarrow> st2
                 | Some s \<Rightarrow>
                     (let start = parseInt s;
                          st2' = st2\<lparr>st_startTime := Some start, isRunning := True\<rparr>
                      in if savedMode = Some Stopwatch
                         then st2'\<lparr>elapsedTime := num_floor_div1000 (num_sub (Num now) start)\<rparr>
                         else (case truthyStr savedTimerStart of None \<Rightarrow> st2'
                               | Some ts \<Rightarrow>
                                   (case truthyStr savedTimerDuration of None \<Rightarrow> st2'
                                    | Some d \<Rightarrow>
                                        (let timerStart = parseInt ts;
                                             elapsed = num_floor_div1000 (num_sub (Num now) timerStart);
                                             remaining = num_max0 (num_sub (parseInt d) elapsed)
                                         in st2'\<lparr>timerRemaining := remaining\<rparr>)))))
      in loadSessions st3)"

text \<open>
  \<open>handleStop\<close>: returns at once when \<open>startTime\<close> is falsy; otherwise builds the closed
  session, appends it, and resets. \<open>toISOString\<close> throws before any state is written.
\<close>

definition handleStop :: "TimeTracker \<Rightarrow> int \<Rightarrow> error + TimeTracker" where
  "handleStop st now =
     (case truthy (st_startTime st) of None \<Rightarrow> Inr st
      | Some s \<Rightarrow>
          (case toISOString s of None \<Rightarrow> Inl RangeError
           | Some isoText \<Rightarrow>
               (let session = \<lparr> startTime = s, endTime = Some now,
                                duration = (now - s) div 1000, mode = st_mode st,
                                date = split_T_0 isoText \<rparr>;
                    st1 = saveSessions st (sessions st @ [session]);
                    st2 = st1\<lparr>isRunning := False, st_startTime := None,
                              localStorage := (localStorage st1)
                                \<lparr>ls_startTime := None, ls_timerStartTime := None\<rparr>\<rparr>
                in Inr (if st_mode st = Stopwatch then st2\<lparr>elapsedTime := Num 0\<rparr>
                        else st2\<lparr>timerRemaining := timerDuration st\<rparr>))))"

text \<open>
  The callback of the one-second interval, which the effect installs only while
  \<open>isRunning\<close> holds. In timer mode the updater of \<open>timerRemaining\<close> receives the previous
  value. At expiry it calls \<open>handleStop\<close> and returns 0: the 0 is the result of this
  update, and the updates that \<open>handleStop\<close> has queued are applied after it, so that the
  hook ends at \<open>timerDuration\<close> when \<open>handleStop\<close> has stopped the run, and at 0 when
  \<open>handleStop\<close> has returned at once.
\<close>

definition tick :: "TimeTracker \<Rightarrow> int \<Rightarrow> error + TimeTracker" where
  "tick st now =
     (if \<not> isRunning st then Inr st
      else case (if st_mode st = Stopwatch then truthy (st_startTime st) else None) of
        Some s \<Rightarrow> Inr (st\<lparr>elapsedTime := Num ((now - s) div 1000)\<rparr>)
      | None \<Rightarrow>
          if st_mode st = Timer
          then (let newRemaining = num_sub (timerRemaining st) (Num 1)
                in if num_le0 newRemaining
                   then handleStop (st\<lparr>timerRemaining := Num 0\<rparr>) now
                   else Inr (st\<lparr>timerRemaining := newRemaining\<rparr>))
          else Inr st)"

definition handleStart :: "TimeTracker \<Rightarrow> int \<Rightarrow> TimeTracker" where
  "handleStart st now =
     (let st1 = st\<lparr>st_startTime := Some (Num now), isRunning := True,
                   localStorage := (localStorage st)
                     \<lparr>ls_trackerMode := Some (st_mode st),
                      ls_startTime := Some (toString (Num now))\<rparr>\<rparr>
      in if st_mode st = Timer
         then st1\<lparr>timerRemaining := timerDuration st,
                  localStorage := (localStorage st1)
                    \<lparr>ls_timerStartTime := Some (toString (Num now)),
                     ls_timerDuration := Some (toString (timerDuration st))\<rparr>\<rparr>
         else st1\<lparr>elapsedTime := Num 0\<rparr>)"

definition handleReset :: "TimeTracker \<Rightarrow> TimeTracker" where
  "handleReset st =
     st\<lparr>isRunning := False, st_startTime := None, elapsedTime := Num 0,
        timerRemaining := timerDuration st,
        localStorage := (localStorage st)\<lparr>ls_startTime := None, ls_timerStartTime := None\<rparr>\<rparr>"



section \<open>The aggregation code\<close>

text \<open>
  Local time is UTC plus \<open>offset\<close> milliseconds, one fixed offset for the whole run
  (no daylight-saving change). \<open>MakeDay\<close> is ECMAScript's: a month index below 0 or
  above 11 carries into the year, and the day of the month may run over.
\<close>

definition MakeDay :: "int \<Rightarrow> int \<Rightarrow> int \<Rightarrow> int" where
  "MakeDay year month0 dt = days_from_civil (year + month0 div 12) (month0 mod 12 + 1) 1 + dt - 1"

text \<open>
  \<open>new Date(now.getFullYear(), now.getMonth(), now.getDate())\<close>: local midnight of today.
  The constructor reads a year from 0 to 99 as a year of the twentieth century.
\<close>

definition localMidnight :: "int \<Rightarrow> int \<Rightarrow> int" where
  "localMidnight offset now =
     (let (y, m, d) = civil_from_days ((now + offset) div msPerDay);
          yr = (if 0 \<le> y \<and> y \<le> 99 then 1900 + y else y)
      in MakeDay yr (m - 1) d * msPerDay - offset)"

text \<open>The boundary of a range: \<open>today\<close> moved back by \<open>setDate\<close>, \<open>setMonth\<close>, \<open>setFullYear\<close>.\<close>

definition rangeBoundary :: "int \<Rightarrow> TimeRange \<Rightarrow> int \<Rightarrow> int" where
  "rangeBoundary offset rng now =
     (let today = localMidnight offset now;
          (y, m, d) = civil_from_days ((today + offset) div msPerDay)
      in case rng of
           Today \<Rightarrow> today
         | Week \<Rightarrow> MakeDay y (m - 1) (d - 7) * msPerDay - offset
         | Month \<Rightarrow> MakeDay y (m - 1 - 1) d * msPerDay - offset
         | Year \<Rightarrow> MakeDay (y - 1) (m - 1) d * msPerDay - offset)"

text \<open>A session passes when its start is a valid date not before the boundary.\<close>

definition filterByRange :: "int \<Rightarrow> TimeRange \<Rightarrow> int \<Rightarrow> Session list \<Rightarrow> Session list" where
  "filterByRange offset rng now xs =
     filter (\<lambda>session. case TimeClip (startTime session) of None \<Rightarrow> False
               | Some sessionDate \<Rightarrow> sessionDate \<ge> rangeBoundary offset rng now) xs"

definition getFilteredSessions :: "int \<Rightarrow> TimeTracker \<Rightarrow> int \<Rightarrow> Session list" where
  "getFilteredSessions offset st now = filterByRange offset (timeRange st) now (sessions st)"

text \<open>
  The \<open>Map\<close> of \<open>getDayData\<close> is a list of entries in insertion order. One round of the
  \<open>forEach\<close>: a date not yet in the map gets an empty bucket at the end, then the bucket
  of the date takes the session's minutes and the session.
\<close>

definition addSession :: "(string \<times> DayData) list \<Rightarrow> Session \<Rightarrow> (string \<times> DayData) list" where
  "addSession dayMap session =
     (let dayMap1 = (if map_of dayMap (date session) = None
                     then dayMap @ [(date session,
                            \<lparr> dd_date = date session, totalMinutes = Finite 0, dd_sessions = [] \<rparr>)]
                     else dayMap)
      in map (\<lambda>(k, dayData).
                if k = date session
                then (k, dayData\<lparr>totalMinutes :=
                                   fadd (totalMinutes dayData) (fdiv_by 60 (ofInt (duration session))),
                                 dd_sessions := dd_sessions dayData @ [session]\<rparr>)
                else (k, dayData)) dayMap1)"

text \<open>
  \<open>Array.prototype.sort\<close> with a comparator is stable: an element stays before a later
  one unless the comparator puts it after. For a comparator that is consistent on the
  elements the sorted order is the same for every sorting algorithm; it is written here
  as an insertion from the right.
\<close>

fun insertBy :: "('a \<Rightarrow> 'a \<Rightarrow> int) \<Rightarrow> 'a \<Rightarrow> 'a list \<Rightarrow> 'a list" where
  "insertBy c x [] = [x]"
| "insertBy c x (y # ys) = (if c x y \<le> 0 then x # y # ys else y # insertBy c x ys)"

definition sortBy :: "('a \<Rightarrow> 'a \<Rightarrow> int) \<Rightarrow> 'a list \<Rightarrow> 'a list" where
  "sortBy c xs = foldr (insertBy c) xs []"

text \<open>
  The grouping of \<open>getDayData\<close>, on the filtered list. The order of strings that
  \<open>String.prototype.localeCompare\<close> implements belongs to the platform and its locale; it
  is the parameter \<open>localeCompare\<close>.
\<close>

definition groupByDay :: "(string \<Rightarrow> string \<Rightarrow> int) \<Rightarrow> Session list \<Rightarrow> DayData list" where
  "groupByDay localeCompare filtered =
     sortBy (\<lambda>a b. localeCompare (dd_date a) (dd_date b)) (map snd (foldl addSession [] filtered))"

definition getDayData :: "(string \<Rightarrow> string \<Rightarrow> int) \<Rightarrow> int \<Rightarrow> TimeTracker \<Rightarrow> int \<Rightarrow> DayData list" where
  "getDayData localeCompare offset st now =
     groupByDay localeCompare (getFilteredSessions offset st now)"

text \<open>
  The same code with its arrays as objects. The store holds the arrays of sessions by
  address; an array that the code creates (by \<open>filter\<close>, or as the \<open>sessions\<close> of a new
  bucket) takes the next address, and \<open>push\<close> writes at the address of the bucket's array.
  \<open>sessionsRef\<close> is the address of the array of the hook \<open>sessions\<close>.
\<close>

record DayDataRef =
  ref_date :: string
  ref_totalMinutes :: double
  ref_sessions :: nat

definition addSession_store ::
    "(string \<times> DayDataRef) list \<times> Session list list \<Rightarrow> Session
      \<Rightarrow> (string \<times> DayDataRef) list \<times> Session list list" where
  "addSession_store ms session =
     (let dayMap = fst ms;
          store = snd ms;
          dayMap1 = (if map_of dayMap (date session) = None
                     then dayMap @ [(date session,
                            \<lparr> ref_date = date session, ref_totalMinutes = Finite 0,
                              ref_sessions = length store \<rparr>)]
                     else dayMap);
          store1 = (if map_of dayMap (date session) = None then store @ [[]] else store)
      in (map (\<lambda>(k, dayData).
                 if k = date session
                 then (k, dayData\<lparr>ref_totalMinutes :=
                            fadd (ref_totalMinutes dayData) (fdiv_by 60 (ofInt (duration session)))\<rparr>)
                 else (k, dayData)) dayMap1,
          (case map_of dayMap1 (date session) of None \<Rightarrow> store1
           | Some dayData \<Rightarrow>
               store1[ref_sessions dayData := store1 ! ref_sessions dayData @ [session]])))"

definition getDayData_store ::
    "(string \<Rightarrow> string \<Rightarrow> int) \<Rightarrow> int \<Rightarrow> TimeRange \<Rightarrow> int \<Rightarrow> Session list list \<Rightarrow> nat
      \<Rightarrow> DayDataRef list \<times> Session list list" where
  "getDayData_store localeCompare offset rng now store sessionsRef =
     (let filtered = filterByRange offset rng now (store ! sessionsRef);
          store1 = store @ [filtered];
          ms = foldl addSession_store ([], store1) filtered
      in (sortBy (\<lambda>a b. localeCompare (ref_date a) (ref_date b)) (map snd (fst ms)), snd ms))"

text \<open>A bucket read through the store.\<close>

definition deref :: "Session list list \<Rightarrow> DayDataRef \<Rightarrow> DayData" where
  "deref store r = \<lparr> dd_date = ref_date r, totalMinutes = ref_totalMinutes r,
     dd_sessions = store ! ref_sessions r \<rparr>"

text \<open>
  The invariant of the loop of \<open>getDayData\<close> over the store: the dates of the map are
  distinct, every bucket owns an array of its own that was allocated at or after \<open>base\<close>,
  and no two buckets share an array.
\<close>

definition bucketsOk :: "nat \<Rightarrow> Session list list \<Rightarrow> (string \<times> DayDataRef) list \<Rightarrow> bool" where
  "bucketsOk base store dayMap =
     (distinct (map fst dayMap) \<and> distinct (map (\<lambda>e. ref_sessions (snd e)) dayMap)
      \<and> (\<forall>e\<in>set dayMap. base \<le> ref_sessions (snd e) \<and> ref_sessions (snd e) < length store)
      \<and> base \<le> length store)"

text \<open>An entry of the map read through the store.\<close>

definition derefEntry :: "Session list list \<Rightarrow> string \<times> DayDataRef \<Rightarrow> string \<times> DayData" where
  "derefEntry store e = (fst e, deref store (snd e))"

subsection \<open>The timeline of today\<close>









section \<open>The remote store (src/app/api/sessions/route.ts and its second version)\<close>

text \<open>
  The collection is the list of its documents in insertion order, the identifiers that
  the database adds left out. \<open>insertMany\<close> of the driver appends the documents and
  rejects an empty batch; \<open>deleteMany({})\<close> empties the collection. The body of a request
  is a JSON array of sessions.
\<close>

datatype mongo_error = EmptyBatch

datatype response = Success | SuccessCount nat | ServerError

definition insertMany :: "Session list \<Rightarrow> Session list \<Rightarrow> mongo_error + Session list" where
  "insertMany collection docs = (if docs = [] then Inl EmptyBatch else Inr (collection @ docs))"

definition deleteMany :: "Session list \<Rightarrow> Session list" where
  "deleteMany collection = []"

text \<open>\<open>POST\<close> of route.ts: one \<open>insertMany\<close>; an exception leaves the handler unanswered.\<close>

definition POST_route :: "Session list \<Rightarrow> Session list \<Rightarrow> Session list \<times> response" where
  "POST_route collection body =
     (case insertMany collection body of
        Inl e \<Rightarrow> (collection, ServerError)
      | Inr collection1 \<Rightarrow> (collection1, Success))"

definition GET_route :: "Session list \<Rightarrow> Session list" where
  "GET_route collection = collection"

text \<open>\<open>POST\<close> of the second version (part_000): delete all, then insert unless empty.\<close>

definition POST_part_000 :: "Session list \<Rightarrow> Session list \<Rightarrow> Session list \<times> response" where
  "POST_part_000 collection body =
     (let collection1 = deleteMany collection
      in if length body > 0
         then (case insertMany collection1 body of
                 Inl e \<Rightarrow> (collection1, ServerError)
               | Inr collection2 \<Rightarrow> (collection2, SuccessCount (length body)))
         else (collection1, SuccessCount 0))"

text \<open>\<open>GET\<close> of the second version sorts by \<open>startTime\<close>, ascending.\<close>

definition GET_part_000 :: "Session list \<Rightarrow> Session list" where
  "GET_part_000 collection = sort_key startTime collection"

section \<open>Statements of the specification, for comparison\<close>

text \<open>
  Following the claim's words on the timer tick: the remaining time derived from the
  start and the fixed duration, \<open>max(0, timerDuration - floor((now - startTime)/1000))\<close>.
\<close>

definition spec_remaining :: "int \<Rightarrow> int \<Rightarrow> int \<Rightarrow> int" where
  "spec_remaining timerDur start now = max 0 (timerDur - (now - start) div 1000)"








text \<open>
  Following the specification's words on \<open>DayData\<close>: the bucket of a date holds the
  sessions whose \<open>date\<close> is that date, and \<open>totalMinutes\<close> is the sum of their
  \<open>duration / 60\<close>, added up as doubles in the order of the list.
\<close>

definition sumMinutes :: "Session list \<Rightarrow> double" where
  "sumMinutes xs = foldl (\<lambda>t s. fadd t (fdiv_by 60 (ofInt (duration s)))) (Finite 0) xs"

definition spec_dayData :: "string \<Rightarrow> Session list \<Rightarrow> DayData" where
  "spec_dayData d xs =
     \<lparr> dd_date = d,
       totalMinutes = sumMinutes (filter (\<lambda>s. date s = d) xs),
       dd_sessions = filter (\<lambda>s. date s = d) xs \<rparr>"

text \<open>The date and the total of each bucket, in the order of the buckets.\<close>

definition bucketTotals :: "DayData list \<Rightarrow> (string \<times> double) list" where
  "bucketTotals buckets = map (\<lambda>b. (dd_date b, totalMinutes b)) buckets"

text \<open>
  The order of the code units of two strings as a comparator, with which
  \<open>localeCompare\<close> agrees on dates of the form \<open>YYYY-MM-DD\<close>.
\<close>

definition codeUnitCompare :: "string \<Rightarrow> string \<Rightarrow> int" where
  "codeUnitCompare a b = (if a < b then - 1 else if a = b then 0 else 1)"

text \<open>
  A comparator is consistent on a set of strings when it orders them linearly: any two
  are comparable, the order is transitive, and two different strings are never equal
  in it.
\<close>

definition consistentOn :: "string set \<Rightarrow> (string \<Rightarrow> string \<Rightarrow> int) \<Rightarrow> bool" where
  "consistentOn D c =
     ((\<forall>a\<in>D. \<forall>b\<in>D. c a b \<le> 0 \<or> c b a \<le> 0)
      \<and> (\<forall>a\<in>D. \<forall>b\<in>D. c a b \<le> 0 \<and> c b a \<le> 0 \<longrightarrow> a = b)
      \<and> (\<forall>a\<in>D. \<forall>b\<in>D. \<forall>c'\<in>D. c a b \<le> 0 \<and> c b c' \<le> 0 \<longrightarrow> c a c' \<le> 0))"


section \<open>Sample inputs\<close>

text \<open>A browser without stored entries.\<close>

definition emptyStorage :: storage where
  "emptyStorage = \<lparr> ls_trackerMode = None, ls_startTime = None, ls_timerStartTime = None,
     ls_timerDuration = None, ls_allSessions = None \<rparr>"

text \<open>A stopwatch started at 2024-01-01T09:00:00Z from the first render.\<close>

definition runningStopwatch :: TimeTracker where
  "runningStopwatch = handleStart (initialState emptyStorage) 1704099600000"

text \<open>The state after this stopwatch is stopped at 09:05:00.\<close>

definition stoppedStopwatch :: TimeTracker where
  "stoppedStopwatch = runningStopwatch
     \<lparr>sessions := [\<lparr> startTime = 1704099600000, endTime = Some 1704099900000, duration = 300,
                     mode = Stopwatch, date = ''2024-01-01'' \<rparr>],
      localStorage := (localStorage runningStopwatch)
        \<lparr>ls_allSessions := Some (Archive [\<lparr> startTime = 1704099600000,
            endTime = Some 1704099900000, duration = 300, mode = Stopwatch,
            date = ''2024-01-01'' \<rparr>]),
         ls_startTime := None, ls_timerStartTime := None\<rparr>,
      isRunning := False, st_startTime := None, elapsedTime := Num 0\<rparr>"

text \<open>A 25-minute timer started at 2024-01-01T09:00:00Z.\<close>

definition runningTimer :: TimeTracker where
  "runningTimer = handleStart ((initialState emptyStorage)\<lparr>st_mode := Timer\<rparr>) 1704099600000"

text \<open>The storage that this timer leaves behind when the page is closed.\<close>

definition expiredStorage :: storage where
  "expiredStorage = \<lparr> ls_trackerMode = Some Timer, ls_startTime = Some ''1704099600000'',
     ls_timerStartTime = Some ''1704099600000'', ls_timerDuration = Some ''1500'',
     ls_allSessions = None \<rparr>"



text \<open>The three sessions of the grouping scenario; only date and duration matter.\<close>

definition scenarioSession :: "string \<Rightarrow> int \<Rightarrow> Session" where
  "scenarioSession d n = \<lparr> startTime = 1704099600000, endTime = Some (1704099600000 + n * 1000),
     duration = n, mode = Stopwatch, date = d \<rparr>"

definition scenarioSessions :: "Session list" where
  "scenarioSessions = [scenarioSession ''2024-01-01'' 1800, scenarioSession ''2024-01-01'' 1800,
     scenarioSession ''2024-01-02'' 3600]"


text \<open>The scenario as the stored list of a tracker that has just been opened.\<close>

definition scenarioState :: TimeTracker where
  "scenarioState = (initialState emptyStorage)\<lparr>sessions := scenarioSessions\<rparr>"

text \<open>Three sessions of 6, 12 and 18 seconds on one day: 0.1, 0.2 and 0.3 minutes.\<close>

definition driftSessions :: "Session list" where
  "driftSessions = [scenarioSession ''2024-01-01'' 6, scenarioSession ''2024-01-01'' 12,
     scenarioSession ''2024-01-01'' 18]"

section \<open>Evaluation of the platform functions on the sample inputs\<close>

lemma toISOString_0900: "toISOString 1704099600000 = Some ''2024-01-01T09:00:00.000Z''"
  by code_simp


lemma toString_0900: "toString (Num 1704099600000) = ''1704099600000''"
  by (simp add: toString_def showNat.simps digitChar_def)

lemma parseInt_0900: "parseInt ''1704099600000'' = Num 1704099600000"
  by (simp add: parseInt_def isStrWhiteSpaceChar_def isDigit_def digitValue_def)

lemma parseInt_1500: "parseInt ''1500'' = Num 1500"
  by (simp add: parseInt_def isStrWhiteSpaceChar_def isDigit_def digitValue_def)

lemma runningTimer_storage: "localStorage runningTimer = expiredStorage"
  by (simp add: runningTimer_def handleStart_def initialState_def emptyStorage_def
      expiredStorage_def Let_def toString_0900)
     (simp add: toString_def showNat.simps digitChar_def)

lemma runningStopwatch_fields:
  "isRunning runningStopwatch"
  "truthy (st_startTime runningStopwatch) = Some 1704099600000"
  "sessions runningStopwatch = []"
  "st_mode runningStopwatch = Stopwatch"
  by (simp_all add: runningStopwatch_def handleStart_def initialState_def truthy_def Let_def)

section \<open>stop, reset and the mode switch\<close>

lemma handleStop_noop: "truthy (st_startTime st) = None \<Longrightarrow> handleStop st now = Inr st"
  by (simp add: handleStop_def)

lemma handleStop_running:
  assumes "truthy (st_startTime st) = Some s" and "toISOString s = Some text"
  shows "handleStop st now =
    Inr ((if st_mode st = Stopwatch then (\<lambda>x. x\<lparr>elapsedTime := Num 0\<rparr>)
          else (\<lambda>x. x\<lparr>timerRemaining := timerDuration st\<rparr>))
     (st\<lparr>sessions := sessions st @ [\<lparr> startTime = s, endTime = Some now,
            duration = (now - s) div 1000, mode = st_mode st, date = split_T_0 text \<rparr>],
         localStorage := (localStorage st)
           \<lparr>ls_allSessions := Some (Archive (sessions st @ [\<lparr> startTime = s, endTime = Some now,
               duration = (now - s) div 1000, mode = st_mode st, date = split_T_0 text \<rparr>])),
            ls_startTime := None, ls_timerStartTime := None\<rparr>,
         isRunning := False, st_startTime := None\<rparr>))"
  using assms by (simp add: handleStop_def saveSessions_def Let_def)

lemma handleStop_clears_startTime:
  assumes "handleStop st now = Inr st1"
  shows "truthy (st_startTime st1) = None"
  using assms
  by (auto simp: handleStop_def saveSessions_def Let_def truthy_def split: option.splits if_splits)

lemma handleStop_sessions_growth:
  assumes "handleStop st now = Inr st1"
  shows "length (sessions st1) \<le> Suc (length (sessions st))"
  using assms
  by (auto simp: handleStop_def saveSessions_def Let_def split: option.splits if_splits)

text \<open>
  C7. \<open>handleStop\<close> without an active \<open>startTime\<close> (the hook is \<open>null\<close>, or falsy) returns
  the state as it is: the sessions, the storage and every hook are unchanged. So after one
  stop that returned, a second stop changes nothing, and the two together have added at
  most one session.
\<close>

theorem handleStop_no_startTime_is_noop:
  "(truthy (st_startTime st) = None \<longrightarrow> handleStop st now = Inr st)
   \<and> (handleStop st now = Inr st1 \<longrightarrow>
        handleStop st1 now' = Inr st1 \<and> length (sessions st1) \<le> Suc (length (sessions st)))"
  using handleStop_clears_startTime handleStop_noop handleStop_sessions_growth by blast

theorem handleStop_no_startTime_is_noop_witness:
  "handleStop (initialState emptyStorage) 1704099600000 = Inr (initialState emptyStorage)
   \<and> handleStop runningStopwatch 1704099900000 = Inr stoppedStopwatch
   \<and> handleStop stoppedStopwatch 1704099900000 = Inr stoppedStopwatch
   \<and> length (sessions stoppedStopwatch) \<le> Suc (length (sessions runningStopwatch))"
proof -
  have a: "truthy (st_startTime (initialState emptyStorage)) = None"
    by (simp add: initialState_def truthy_def)
  have b: "handleStop runningStopwatch 1704099900000 = Inr stoppedStopwatch"
    by (simp add: handleStop_running [OF runningStopwatch_fields(2) toISOString_0900]
        runningStopwatch_fields stoppedStopwatch_def split_T_0_def)
  show ?thesis
    using handleStop_no_startTime_is_noop [of "initialState emptyStorage" 1704099600000]
      handleStop_no_startTime_is_noop [of runningStopwatch 1704099900000
        stoppedStopwatch 1704099900000] a b
    by simp
qed

text \<open>
  C8 as the code has it. \<open>handleReset\<close>, in any state, leaves the controller idle with no
  start time and leaves the session list and the stored archive as they were. Of the
  entries that \<open>handleStart\<close> writes for a run it removes \<open>startTime\<close> and
  \<open>timerStartTime\<close> and keeps \<open>trackerMode\<close> and \<open>timerDuration\<close>. A reset right after a
  start has recorded no session, and a later mount over the storage it leaves is idle, in
  the stored mode.
\<close>

theorem handleReset_discards_run:
  "sessions (handleReset st) = sessions st
   \<and> ls_allSessions (localStorage (handleReset st)) = ls_allSessions (localStorage st)
   \<and> \<not> isRunning (handleReset st)
   \<and> st_startTime (handleReset st) = None
   \<and> ls_startTime (localStorage (handleReset st)) = None
   \<and> ls_timerStartTime (localStorage (handleReset st)) = None
   \<and> ls_trackerMode (localStorage (handleReset st)) = ls_trackerMode (localStorage st)
   \<and> ls_timerDuration (localStorage (handleReset st)) = ls_timerDuration (localStorage st)
   \<and> sessions (handleReset (handleStart st now)) = sessions st
   \<and> \<not> isRunning (mountEffect (initialState (localStorage (handleReset st))) now')
   \<and> st_mode (mountEffect (initialState (localStorage (handleReset st))) now') =
       (case ls_trackerMode (localStorage st) of None \<Rightarrow> Stopwatch | Some m \<Rightarrow> m)"
  by (simp add: handleReset_def handleStart_def mountEffect_def initialState_def loadSessions_def
      truthyStr_def Let_def split: option.splits archive.splits)

theorem handleReset_discards_run_witness:
  "sessions (handleReset runningStopwatch) = []
   \<and> \<not> isRunning (handleReset runningStopwatch)
   \<and> ls_startTime (localStorage (handleReset runningStopwatch)) = None"
  using handleReset_discards_run [of runningStopwatch]
  by (simp add: runningStopwatch_fields)

text \<open>
  C8 as the specification states it fails: after the reset of the running 25-minute
  timer the entries \<open>trackerMode\<close> and \<open>timerDuration\<close> of the run are still stored, and
  the next mount takes the mode and the duration from them.
\<close>

theorem handleReset_keeps_mode_and_duration:
  "ls_trackerMode (localStorage runningTimer) = Some Timer
   \<and> ls_timerDuration (localStorage runningTimer) = Some ''1500''
   \<and> ls_trackerMode (localStorage (handleReset runningTimer)) = Some Timer
   \<and> ls_timerDuration (localStorage (handleReset runningTimer)) = Some ''1500''
   \<and> st_mode (mountEffect (initialState (localStorage (handleReset runningTimer)))
         1704103200000) = Timer
   \<and> timerDuration (mountEffect (initialState (localStorage (handleReset runningTimer)))
         1704103200000) = Num 1500"
  by (simp add: handleReset_def runningTimer_storage)
     (simp add: expiredStorage_def mountEffect_def initialState_def loadSessions_def
       truthyStr_def Let_def parseInt_1500)




section \<open>The timer tick\<close>

lemma tick_timer_decrement:
  "isRunning st \<Longrightarrow> st_mode st = Timer \<Longrightarrow> timerRemaining st = Num r \<Longrightarrow> 1 < r \<Longrightarrow>
   tick st now = Inr (st\<lparr>timerRemaining := Num (r - 1)\<rparr>)"
  by (simp add: tick_def num_sub_def num_le0_def)

lemma tick_timer_expiry:
  "isRunning st \<Longrightarrow> st_mode st = Timer \<Longrightarrow> timerRemaining st = Num r \<Longrightarrow> r \<le> 1 \<Longrightarrow>
   tick st now = handleStop (st\<lparr>timerRemaining := Num 0\<rparr>) now"
  by (simp add: tick_def num_sub_def num_le0_def)

text \<open>
  C1 at a late tick. The 25-minute timer started at 09:00:00 receives its first tick at
  09:00:05. The tick takes one second off the displayed 1500 and leaves 1499, whatever the
  clock reads; derived from the start time and the duration the remaining time is 1495.
\<close>

theorem tick_timer_late_tick:
  "tick runningTimer 1704099605000 = Inr (runningTimer\<lparr>timerRemaining := Num 1499\<rparr>)
   \<and> timerRemaining runningTimer = Num 1500
   \<and> st_startTime runningTimer = Some (Num 1704099600000)
   \<and> timerDuration runningTimer = Num 1500
   \<and> spec_remaining 1500 1704099600000 1704099605000 = 1495"
  by (simp add: runningTimer_def handleStart_def initialState_def tick_def num_sub_def
      num_le0_def spec_remaining_def)

section \<open>The timeline of today\<close>






















text \<open>
  The rounding of the doubles shows at a tie: overlaps of 1358254 ms and 291746 ms add up
  to 27.5 minutes exactly, and to 27.499999999999996 as doubles, which rounds to 27.
\<close>

lemma rounding_at_a_tie:
  "Math_round (foldl fadd (Finite 0)
      [fdiv_by 60 (fdiv_by 1000 (ofInt 1358254)), fdiv_by 60 (fdiv_by 1000 (ofInt 291746))])
    = Finite 27"
  by code_simp




section \<open>The remote store\<close>

lemma POST_part_000_replaces:
  "POST_part_000 collection body = (body, SuccessCount (length body))"
  by (simp add: POST_part_000_def insertMany_def deleteMany_def)

lemma POST_part_000_empty_clears: "GET_part_000 (fst (POST_part_000 collection [])) = []"
  by (simp add: POST_part_000_replaces GET_part_000_def)

text \<open>
  C4 on the handler of route.ts. A \<open>POST\<close> over a collection that holds one session adds
  the posted session to it and keeps the old one; a \<open>POST\<close> of the empty array is refused
  by \<open>insertMany\<close> and leaves the collection as it was, so the \<open>GET\<close> that follows still
  returns the old session. (The second version of the handler deletes first:
  \<open>POST_part_000_replaces\<close>, \<open>POST_part_000_empty_clears\<close>.)
\<close>

theorem POST_route_appends:
  "POST_route [scenarioSession ''2024-01-01'' 1800] [scenarioSession ''2024-01-02'' 3600]
     = ([scenarioSession ''2024-01-01'' 1800, scenarioSession ''2024-01-02'' 3600], Success)
   \<and> POST_route [scenarioSession ''2024-01-01'' 1800] []
     = ([scenarioSession ''2024-01-01'' 1800], ServerError)
   \<and> GET_route (fst (POST_route [scenarioSession ''2024-01-01'' 1800] []))
     = [scenarioSession ''2024-01-01'' 1800]"
  by (simp add: POST_route_def GET_route_def insertMany_def)

section \<open>The timer length\<close>



section \<open>Resuming an expired timer\<close>

lemma loadSessions_fields:
  "isRunning (loadSessions st) = isRunning st"
  "st_mode (loadSessions st) = st_mode st"
  "timerRemaining (loadSessions st) = timerRemaining st"
  "timerDuration (loadSessions st) = timerDuration st"
  "st_startTime (loadSessions st) = st_startTime st"
  "localStorage (loadSessions st) = localStorage st"
  "sessions (loadSessions st) =
     (case ls_allSessions (localStorage st) of Some (Archive xs) \<Rightarrow> xs | _ \<Rightarrow> sessions st)"
  by (simp_all add: loadSessions_def split: option.splits archive.splits)

lemma mountEffect_expired:
  assumes "ls_trackerMode ls = Some Timer"
    and "truthyStr (ls_startTime ls) = Some s" and "parseInt s = Num start"
    and "truthyStr (ls_timerStartTime ls) = Some ts" and "parseInt ts = Num timerStart"
    and "truthyStr (ls_timerDuration ls) = Some d" and "parseInt d = Num dur"
    and "dur \<le> (now - timerStart) div 1000"
  shows "mountEffect (initialState ls) now =
     loadSessions ((initialState ls)\<lparr>st_mode := Timer, timerDuration := Num dur,
        timerRemaining := Num 0, st_startTime := Some (Num start), isRunning := True\<rparr>)"
  using assms
  by (simp add: mountEffect_def Let_def initialState_def num_floor_div1000_def num_sub_def
      num_max0_def)

lemma mountEffect_expiredStorage:
  "mountEffect (initialState expiredStorage) 1704103200000 =
     (initialState expiredStorage)\<lparr>st_mode := Timer, timerDuration := Num 1500,
        timerRemaining := Num 0, st_startTime := Some (Num 1704099600000), isRunning := True\<rparr>"
proof -
  have "mountEffect (initialState expiredStorage) 1704103200000 =
     loadSessions ((initialState expiredStorage)\<lparr>st_mode := Timer, timerDuration := Num 1500,
        timerRemaining := Num 0, st_startTime := Some (Num 1704099600000), isRunning := True\<rparr>)"
    by (rule mountEffect_expired [where s = "''1704099600000''" and ts = "''1704099600000''"
          and d = "''1500''" and timerStart = 1704099600000])
       (simp_all add: expiredStorage_def truthyStr_def parseInt_0900 parseInt_1500)
  then show ?thesis by (simp add: loadSessions_def expiredStorage_def initialState_def)
qed

text \<open>
  C2 as the code has it. When the stored run is a timer whose time is over at mount, that
  is \<open>floor((now - timerStartTime) / 1000) \<ge> timerDuration\<close> (\<open>handleStart\<close> writes
  \<open>timerStartTime\<close> equal to \<open>startTime\<close>), the mount effect leaves the controller
  running with a remaining time of 0, appends no session and leaves the storage as it
  was. The first tick after it performs the stop: it appends one closed session, whose
  duration is the time on the clock since the start, \<open>floor((tickTime - startTime) / 1000)\<close>
  (at least \<open>timerDuration\<close>), to the session list and to the stored archive, removes the
  entries \<open>startTime\<close> and \<open>timerStartTime\<close>, sets the remaining time back to
  \<open>timerDuration\<close> and leaves the controller idle with no start time.
\<close>

theorem mountEffect_expired_timer_stops_at_first_tick:
  assumes "ls_trackerMode ls = Some Timer"
    and "truthyStr (ls_startTime ls) = Some s" and "parseInt s = Num start"
    and "truthyStr (ls_timerStartTime ls) = Some ts" and "parseInt ts = Num timerStart"
    and "truthyStr (ls_timerDuration ls) = Some d" and "parseInt d = Num dur"
    and "dur \<le> (now - timerStart) div 1000"
    and "start \<noteq> 0" and "toISOString start = Some text"
  shows "isRunning (mountEffect (initialState ls) now)
       \<and> timerRemaining (mountEffect (initialState ls) now) = Num 0
       \<and> st_startTime (mountEffect (initialState ls) now) = Some (Num start)
       \<and> sessions (mountEffect (initialState ls) now) = sessions (loadSessions (initialState ls))
       \<and> localStorage (mountEffect (initialState ls) now) = ls
       \<and> map_sum id sessions (tick (mountEffect (initialState ls) now) now') =
           Inr (sessions (loadSessions (initialState ls)) @
                [\<lparr> startTime = start, endTime = Some now', duration = (now' - start) div 1000,
                   mode = Timer, date = split_T_0 text \<rparr>])
       \<and> map_sum id (ls_allSessions \<circ> localStorage) (tick (mountEffect (initialState ls) now) now') =
           Inr (Some (Archive (sessions (loadSessions (initialState ls)) @
                [\<lparr> startTime = start, endTime = Some now', duration = (now' - start) div 1000,
                   mode = Timer, date = split_T_0 text \<rparr>])))
       \<and> map_sum id (ls_startTime \<circ> localStorage) (tick (mountEffect (initialState ls) now) now') =
           Inr None
       \<and> map_sum id (ls_timerStartTime \<circ> localStorage)
             (tick (mountEffect (initialState ls) now) now') = Inr None
       \<and> map_sum id isRunning (tick (mountEffect (initialState ls) now) now') = Inr False
       \<and> map_sum id st_startTime (tick (mountEffect (initialState ls) now) now') = Inr None
       \<and> map_sum id timerRemaining (tick (mountEffect (initialState ls) now) now') = Inr (Num dur)
       \<and> (start = timerStart \<and> now \<le> now' \<longrightarrow> dur \<le> (now' - start) div 1000)"
proof -
  let ?st = "mountEffect (initialState ls) now"
  have m: "?st = loadSessions ((initialState ls)\<lparr>st_mode := Timer, timerDuration := Num dur,
        timerRemaining := Num 0, st_startTime := Some (Num start), isRunning := True\<rparr>)"
    using assms(1-8) by (rule mountEffect_expired)
  have f: "isRunning ?st" "st_mode ?st = Timer" "timerRemaining ?st = Num 0"
    "truthy (st_startTime (?st\<lparr>timerRemaining := Num 0\<rparr>)) = Some start"
    "st_startTime ?st = Some (Num start)" "timerDuration ?st = Num dur"
    using assms(9) by (simp_all add: m loadSessions_fields truthy_def)
  have s: "sessions ?st = sessions (loadSessions (initialState ls))"
    unfolding m
    by (simp add: loadSessions_fields initialState_def split: option.splits archive.splits)
  have l: "localStorage ?st = ls"
    unfolding m by (simp add: loadSessions_fields initialState_def)
  have t: "tick ?st now' = handleStop (?st\<lparr>timerRemaining := Num 0\<rparr>) now'"
    using f(1,2,3) by (simp add: tick_def num_sub_def num_le0_def)
  have d: "dur \<le> (now' - start) div 1000" if "start = timerStart" "now \<le> now'"
  proof -
    have "(now - timerStart) div 1000 \<le> (now' - start) div 1000"
      using that by (intro zdiv_mono1) simp_all
    with assms(8) show ?thesis by simp
  qed
  show ?thesis
    using d by (simp add: f s l t handleStop_running [OF f(4) assms(10)])
qed

theorem mountEffect_expired_timer_stops_at_first_tick_witness:
  "isRunning (mountEffect (initialState expiredStorage) 1704103200000)
   \<and> map_sum id sessions
        (tick (mountEffect (initialState expiredStorage) 1704103200000) 1704103201000) =
       Inr [\<lparr> startTime = 1704099600000, endTime = Some 1704103201000, duration = 3601,
              mode = Timer, date = ''2024-01-01'' \<rparr>]
   \<and> map_sum id isRunning
        (tick (mountEffect (initialState expiredStorage) 1704103200000) 1704103201000) = Inr False
   \<and> map_sum id timerRemaining
        (tick (mountEffect (initialState expiredStorage) 1704103200000) 1704103201000) =
       Inr (Num 1500)
   \<and> map_sum id (ls_startTime \<circ> localStorage)
        (tick (mountEffect (initialState expiredStorage) 1704103200000) 1704103201000) = Inr None"
proof -
  have h: "ls_trackerMode expiredStorage = Some Timer"
    "truthyStr (ls_startTime expiredStorage) = Some ''1704099600000''"
    "truthyStr (ls_timerStartTime expiredStorage) = Some ''1704099600000''"
    "truthyStr (ls_timerDuration expiredStorage) = Some ''1500''"
    by (simp_all add: expiredStorage_def truthyStr_def)
  have e: "(1500::int) \<le> (1704103200000 - 1704099600000) div 1000" "(1704099600000::int) \<noteq> 0"
    by simp_all
  have l: "sessions (loadSessions (initialState expiredStorage)) = []"
    by (simp add: loadSessions_def expiredStorage_def initialState_def)
  show ?thesis
    using mountEffect_expired_timer_stops_at_first_tick [OF h(1) h(2) parseInt_0900 h(3)
        parseInt_0900 h(4) parseInt_1500 e(1) e(2) toISOString_0900, of 1704103201000]
    by (simp add: l split_T_0_def)
qed

text \<open>
  C2 as the specification states it fails. The 25-minute timer started at 09:00 is
  mounted again at 10:00: the controller is running and no session has been appended. The
  tick one second later appends a session of 3601 seconds, not of the 1500 of the timer.
\<close>

theorem mountEffect_expired_timer_still_running:
  "isRunning (mountEffect (initialState expiredStorage) 1704103200000)
   \<and> sessions (mountEffect (initialState expiredStorage) 1704103200000) = []
   \<and> map_sum id (map duration \<circ> sessions)
        (tick (mountEffect (initialState expiredStorage) 1704103200000) 1704103201000) = Inr [3601]
   \<and> timerDuration (mountEffect (initialState expiredStorage) 1704103200000) = Num 1500"
  unfolding mountEffect_expiredStorage
  by (simp add: tick_def num_sub_def num_le0_def initialState_def
      handleStop_def truthy_def toISOString_0900 saveSessions_def Let_def)

section \<open>Grouping by day\<close>

subsection \<open>The map of buckets\<close>

lemma addSession_keys:
  "map fst (addSession m s) =
     (if date s \<in> set (map fst m) then map fst m else map fst m @ [date s])"
proof -
  have k: "map fst (map (\<lambda>(k, dayData). if k = d then (k, f dayData) else (k, dayData)) xs) = map fst xs"
    for d :: string and f :: "DayData \<Rightarrow> DayData" and xs
    by (induction xs) auto
  have n: "(map_of m (date s) = None) = (date s \<notin> set (map fst m))"
    by (simp add: map_of_eq_None_iff)
  show ?thesis
    unfolding addSession_def Let_def k n by simp
qed

lemma map_of_update_bucket:
  "map_of (map (\<lambda>(k, dayData). if k = d then (k, f dayData) else (k, dayData)) xs) k' =
     (if k' = d then map_option f (map_of xs k') else map_of xs k')"
  by (induction xs) auto

lemma addSession_lookup:
  "map_of (addSession m s) k =
     (if k = date s
      then Some ((case map_of m k of
                    None \<Rightarrow> \<lparr> dd_date = k, totalMinutes = Finite 0, dd_sessions = [] \<rparr>
                  | Some b \<Rightarrow> b)
                 \<lparr>totalMinutes := fadd (totalMinutes (case map_of m k of
                       None \<Rightarrow> \<lparr> dd_date = k, totalMinutes = Finite 0, dd_sessions = [] \<rparr>
                     | Some b \<Rightarrow> b)) (fdiv_by 60 (ofInt (duration s))),
                  dd_sessions := dd_sessions (case map_of m k of
                       None \<Rightarrow> \<lparr> dd_date = k, totalMinutes = Finite 0, dd_sessions = [] \<rparr>
                     | Some b \<Rightarrow> b) @ [s]\<rparr>)
      else map_of m k)"
proof (cases "map_of m (date s)")
  case None
  then show ?thesis
    unfolding addSession_def Let_def map_of_update_bucket
    by (simp add: map_add_def split: option.splits)
next
  case (Some b)
  then show ?thesis
    unfolding addSession_def Let_def map_of_update_bucket
    by simp
qed

lemma foldl_addSession_keys:
  "distinct (map fst (foldl addSession [] xs)) \<and>
   set (map fst (foldl addSession [] xs)) = date ` set xs"
proof (induction xs rule: rev_induct)
  case Nil
  show ?case by simp
next
  case (snoc x xs)
  then show ?case by (auto simp: addSession_keys)
qed

lemma filter_other_date: "d \<notin> date ` set xs \<Longrightarrow> filter (\<lambda>s. date s = d) xs = []"
  by (induction xs) auto

lemma foldl_addSession_lookup:
  "map_of (foldl addSession [] xs) k =
     (if k \<in> date ` set xs then Some (spec_dayData k xs) else None)"
proof (induction xs arbitrary: k rule: rev_induct)
  case Nil
  show ?case by simp
next
  case (snoc x xs)
  show ?case
    by (simp add: addSession_lookup snoc.IH spec_dayData_def sumMinutes_def filter_other_date)
qed

lemma foldl_addSession_values:
  "map snd (foldl addSession [] xs) =
     map (\<lambda>k. spec_dayData k xs) (map fst (foldl addSession [] xs))"
proof -
  have "snd e = spec_dayData (fst e) xs" if "e \<in> set (foldl addSession [] xs)" for e
  proof -
    have "map_of (foldl addSession [] xs) (fst e) = Some (snd e)"
      using that foldl_addSession_keys [of xs] by simp
    then show ?thesis
      by (simp add: foldl_addSession_lookup split: if_splits)
  qed
  then show ?thesis by (simp add: comp_def)
qed

subsection \<open>Sorting with a comparator\<close>

lemma insertBy_map:
  "insertBy c (g a) (map g ys) = map g (insertBy (\<lambda>x y. c (g x) (g y)) a ys)"
  by (induction ys) simp_all

lemma sortBy_map: "sortBy c (map g xs) = map g (sortBy (\<lambda>x y. c (g x) (g y)) xs)"
  by (induction xs) (simp_all add: sortBy_def insertBy_map)

lemma mset_insertBy: "mset (insertBy c x ys) = add_mset x (mset ys)"
  by (induction ys) simp_all

lemma mset_sortBy: "mset (sortBy c xs) = mset xs"
  by (induction xs) (simp_all add: sortBy_def mset_insertBy)

lemma set_sortBy: "set (sortBy c xs) = set xs"
  by (metis mset_sortBy set_mset_mset)

lemma distinct_sortBy: "distinct (sortBy c xs) = distinct xs"
  by (metis mset_sortBy distinct_count_atmost_1 set_mset_mset)

lemma set_insertBy: "set (insertBy c x ys) = insert x (set ys)"
  by (induction ys) auto

lemma sorted_insertBy:
  assumes "consistentOn D c" and "x \<in> D" and "set ys \<subseteq> D"
    and "sorted_wrt (\<lambda>a b. c a b \<le> 0) ys"
  shows "sorted_wrt (\<lambda>a b. c a b \<le> 0) (insertBy c x ys)"
  using assms(3,4)
proof (induction ys)
  case Nil
  show ?case by simp
next
  case (Cons y ys)
  have yD: "y \<in> D" and ysD: "set ys \<subseteq> D"
    using Cons.prems(1) by simp_all
  have sy: "\<forall>z\<in>set ys. c y z \<le> 0" and ss: "sorted_wrt (\<lambda>a b. c a b \<le> 0) ys"
    using Cons.prems(2) by simp_all
  have tot: "\<forall>a\<in>D. \<forall>b\<in>D. c a b \<le> 0 \<or> c b a \<le> 0"
    and tr: "\<forall>a\<in>D. \<forall>b\<in>D. \<forall>c'\<in>D. c a b \<le> 0 \<and> c b c' \<le> 0 \<longrightarrow> c a c' \<le> 0"
    using assms(1) unfolding consistentOn_def by blast+
  show ?case
  proof (cases "c x y \<le> 0")
    case True
    have "\<forall>z\<in>set ys. c x z \<le> 0"
    proof
      fix z assume z: "z \<in> set ys"
      then have "c y z \<le> 0" and "z \<in> D" using sy ysD by auto
      with True tr assms(2) yD show "c x z \<le> 0" by blast
    qed
    with True sy ss show ?thesis by simp
  next
    case False
    with tot assms(2) yD have yx: "c y x \<le> 0" by blast
    have "sorted_wrt (\<lambda>a b. c a b \<le> 0) (insertBy c x ys)"
      using Cons.IH ysD ss by simp
    moreover have "\<forall>z\<in>set (insertBy c x ys). c y z \<le> 0"
      using yx sy by (simp add: set_insertBy)
    ultimately show ?thesis using False by simp
  qed
qed

lemma sorted_sortBy:
  assumes "consistentOn D c" and "set xs \<subseteq> D"
  shows "sorted_wrt (\<lambda>a b. c a b \<le> 0) (sortBy c xs)"
  using assms(2)
proof (induction xs)
  case Nil
  show ?case by (simp add: sortBy_def)
next
  case (Cons x xs)
  have "sorted_wrt (\<lambda>a b. c a b \<le> 0) (insertBy c x (sortBy c xs))"
    using assms(1) Cons by (intro sorted_insertBy [where D = D]) (simp_all add: set_sortBy)
  then show ?case by (simp add: sortBy_def)
qed

lemma sorted_distinct_unique_by:
  assumes "consistentOn D c" and "set xs \<subseteq> D"
    and "sorted_wrt (\<lambda>a b. c a b \<le> 0) xs" and "distinct xs"
    and "sorted_wrt (\<lambda>a b. c a b \<le> 0) ys" and "distinct ys"
    and "set xs = set ys"
  shows "xs = ys"
  using assms(2-)
proof (induction xs arbitrary: ys)
  case Nil
  then show ?case by simp
next
  case (Cons x xs)
  then obtain y ys' where ys: "ys = y # ys'" by (cases ys) auto
  have anti: "a = b" if "c a b \<le> 0" "c b a \<le> 0" "a \<in> D" "b \<in> D" for a b
    using assms(1) that unfolding consistentOn_def by blast
  have xy: "x = y"
  proof (rule ccontr)
    assume ne: "x \<noteq> y"
    have "x \<in> set ys'" using Cons.prems(6) ne ys by auto
    then have 1: "c y x \<le> 0" using Cons.prems(4) ys by simp
    have "y \<in> set xs" using Cons.prems(6) ne ys by auto
    then have 2: "c x y \<le> 0" using Cons.prems(2) by simp
    have "x \<in> D" "y \<in> D" using Cons.prems(1,6) ys by auto
    with 1 2 anti ne show False by blast
  qed
  have "set xs = set ys'"
    using Cons.prems(3,5,6) ys xy by auto
  then have "xs = ys'"
    using Cons.IH [of ys'] Cons.prems ys by simp
  with xy ys show ?case by simp
qed

lemma sortBy_unique:
  assumes "consistentOn D c" and "set ks \<subseteq> D" and "distinct ks" and "distinct ks'"
    and "set ks = set ks'"
  shows "sortBy c ks = sortBy c ks'"
proof (rule sorted_distinct_unique_by [OF assms(1)])
  show "set (sortBy c ks) \<subseteq> D" using assms(2) by (simp add: set_sortBy)
  show "sorted_wrt (\<lambda>a b. c a b \<le> 0) (sortBy c ks)" using assms(1,2) by (rule sorted_sortBy)
  show "sorted_wrt (\<lambda>a b. c a b \<le> 0) (sortBy c ks')"
    using assms(1,2,5) by (intro sorted_sortBy [where D = D]) simp_all
  show "distinct (sortBy c ks)" "distinct (sortBy c ks')"
    using assms(3,4) by (simp_all add: distinct_sortBy)
  show "set (sortBy c ks) = set (sortBy c ks')" using assms(5) by (simp add: set_sortBy)
qed

lemma consistentOn_codeUnitCompare: "consistentOn D codeUnitCompare"
  by (auto simp: consistentOn_def codeUnitCompare_def split: if_splits)


subsection \<open>The buckets of a list\<close>

lemma groupByDay_refines:
  "groupByDay c xs =
     map (\<lambda>d. spec_dayData d xs) (sortBy c (map fst (foldl addSession [] xs)))"
proof -
  have d: "dd_date (spec_dayData k xs) = k" for k by (simp add: spec_dayData_def)
  show ?thesis
    by (simp add: groupByDay_def foldl_addSession_values sortBy_map d)
qed

lemma dates_groupByDay:
  "map dd_date (groupByDay c xs) = sortBy c (map fst (foldl addSession [] xs))"
  by (simp add: groupByDay_refines spec_dayData_def comp_def)

lemma set_dates_groupByDay: "set (map dd_date (groupByDay c xs)) = date ` set xs"
  using foldl_addSession_keys [of xs] by (simp add: dates_groupByDay set_sortBy)

lemma distinct_dates_groupByDay: "distinct (map dd_date (groupByDay c xs))"
  using foldl_addSession_keys [of xs] by (simp add: dates_groupByDay distinct_sortBy)

lemma bucket_groupByDay:
  assumes "b \<in> set (groupByDay c xs)"
  shows "b = spec_dayData (dd_date b) xs"
  using assms by (auto simp: groupByDay_refines spec_dayData_def)


lemma sorted_keys_perm:
  assumes "set xs = set ys" and "consistentOn (date ` set xs) c"
  shows "sortBy c (map fst (foldl addSession [] xs)) = sortBy c (map fst (foldl addSession [] ys))"
  using foldl_addSession_keys [of xs] foldl_addSession_keys [of ys] assms
  by (intro sortBy_unique [where D = "date ` set xs"]) simp_all

lemma dates_groupByDay_perm:
  assumes "mset xs = mset ys" and "consistentOn (date ` set xs) c"
  shows "map dd_date (groupByDay c xs) = map dd_date (groupByDay c ys)"
  using sorted_keys_perm [OF mset_eq_setD [OF assms(1)] assms(2)] by (simp add: dates_groupByDay)

lemma members_groupByDay_perm:
  assumes "mset xs = mset ys" and "consistentOn (date ` set xs) c"
  shows "map (\<lambda>b. mset (dd_sessions b)) (groupByDay c xs) =
         map (\<lambda>b. mset (dd_sessions b)) (groupByDay c ys)"
proof -
  have "mset (filter P xs) = mset (filter P ys)" for P
    using assms(1) by (simp only: mset_filter)
  then show ?thesis
    using sorted_keys_perm [OF mset_eq_setD [OF assms(1)] assms(2)]
    by (simp add: groupByDay_refines spec_dayData_def comp_def)
qed

lemma groupByDay_same_order_within_dates:
  assumes "\<forall>d. filter (\<lambda>s. date s = d) xs = filter (\<lambda>s. date s = d) ys"
    and "consistentOn (date ` set xs) c"
  shows "groupByDay c xs = groupByDay c ys"
proof -
  have sub: "date ` set xs \<subseteq> date ` set ys" if a: "\<forall>d. filter (\<lambda>s. date s = d) xs = filter (\<lambda>s. date s = d) ys" for xs ys :: "Session list"
  proof
    fix d assume "d \<in> date ` set xs"
    then have "filter (\<lambda>s. date s = d) xs \<noteq> []" by (auto simp: filter_empty_conv)
    with a have "filter (\<lambda>s. date s = d) ys \<noteq> []" by simp
    then show "d \<in> date ` set ys" by (auto simp: filter_empty_conv)
  qed
  have eq: "date ` set xs = date ` set ys"
    using sub [of xs ys] sub [of ys xs] assms(1) by auto
  have k: "sortBy c (map fst (foldl addSession [] xs)) = sortBy c (map fst (foldl addSession [] ys))"
    using foldl_addSession_keys [of xs] foldl_addSession_keys [of ys] eq assms(2)
    by (intro sortBy_unique [where D = "date ` set xs"]) simp_all
  have "spec_dayData d xs = spec_dayData d ys" for d
    using assms(1) by (simp add: spec_dayData_def)
  with k show ?thesis by (simp add: groupByDay_refines)
qed

subsection \<open>The grouping over a store of arrays\<close>

lemma update_other_key:
  "d \<notin> fst ` set xs \<Longrightarrow>
   map (\<lambda>(k, v). if k = d then (k, f v) else (k, v)) xs = xs"
  by (induction xs) auto

lemma keys_derefEntry: "map fst (map (derefEntry h) dm) = map fst dm"
  by (simp add: derefEntry_def comp_def)

lemma map_of_derefEntry_None:
  "(map_of (map (derefEntry h) dm) d = None) = (map_of dm d = None)"
  by (simp add: map_of_eq_None_iff derefEntry_def image_image)

lemma addSession_store_new:
  assumes ok: "bucketsOk base h dm" and new: "map_of dm (date s) = None"
  shows "addSession_store (dm, h) s =
     (dm @ [(date s, \<lparr> ref_date = date s,
                        ref_totalMinutes = fadd (Finite 0) (fdiv_by 60 (ofInt (duration s))),
                        ref_sessions = length h \<rparr>)],
      h @ [[s]])"
proof -
  have nk: "date s \<notin> fst ` set dm" using new by (simp add: map_of_eq_None_iff)
  have l: "map_of (dm @ [(date s, r)]) (date s) = Some r" for r :: DayDataRef
    using new by (simp add: map_add_def)
  show ?thesis
    using new by (simp add: addSession_store_def Let_def map_add_def update_other_key [OF nk])
qed

lemma addSession_new:
  assumes new: "map_of m (date s) = None"
  shows "addSession m s =
     m @ [(date s, \<lparr> dd_date = date s,
                     totalMinutes = fadd (Finite 0) (fdiv_by 60 (ofInt (duration s))),
                     dd_sessions = [s] \<rparr>)]"
proof -
  have nk: "date s \<notin> fst ` set m" using new by (simp add: map_of_eq_None_iff)
  show ?thesis
    using new by (simp add: addSession_def Let_def update_other_key [OF nk])
qed

lemma addSession_old:
  assumes "map_of m (date s) \<noteq> None"
  shows "addSession m s =
     map (\<lambda>(k, dayData).
            if k = date s
            then (k, dayData\<lparr>totalMinutes :=
                               fadd (totalMinutes dayData) (fdiv_by 60 (ofInt (duration s))),
                             dd_sessions := dd_sessions dayData @ [s]\<rparr>)
            else (k, dayData)) m"
  using assms by (simp add: addSession_def Let_def)

lemma addSession_store_old:
  assumes "map_of dm (date s) = Some r"
  shows "addSession_store (dm, h) s =
     (map (\<lambda>(k, dayData).
             if k = date s
             then (k, dayData\<lparr>ref_totalMinutes :=
                        fadd (ref_totalMinutes dayData) (fdiv_by 60 (ofInt (duration s)))\<rparr>)
             else (k, dayData)) dm,
      h[ref_sessions r := h ! ref_sessions r @ [s]])"
  using assms by (simp add: addSession_store_def Let_def)

lemma addSession_store_step:
  assumes ok: "bucketsOk base h dm"
  shows "bucketsOk base (snd (addSession_store (dm, h) s)) (fst (addSession_store (dm, h) s))
       \<and> map (derefEntry (snd (addSession_store (dm, h) s))) (fst (addSession_store (dm, h) s)) =
           addSession (map (derefEntry h) dm) s
       \<and> (\<forall>a<base. snd (addSession_store (dm, h) s) ! a = h ! a)
       \<and> length h \<le> length (snd (addSession_store (dm, h) s))"
proof (cases "map_of dm (date s)")
  case None
  have nk: "date s \<notin> fst ` set dm" using None by (simp add: map_of_eq_None_iff)
  have b: "\<forall>e\<in>set dm. base \<le> ref_sessions (snd e) \<and> ref_sessions (snd e) < length h"
    and bl: "base \<le> length h"
    and dk: "distinct (map fst dm)" and dr: "distinct (map (\<lambda>e. ref_sessions (snd e)) dm)"
    using ok unfolding bucketsOk_def by blast+
  have same: "map (derefEntry (h @ [[s]])) dm = map (derefEntry h) dm"
    using b by (auto simp: derefEntry_def deref_def nth_append)
  have 1: "bucketsOk base (h @ [[s]]) (dm @ [(date s, \<lparr> ref_date = date s,
                        ref_totalMinutes = fadd (Finite 0) (fdiv_by 60 (ofInt (duration s))),
                        ref_sessions = length h \<rparr>)])"
    unfolding bucketsOk_def using b bl dk dr nk by (auto simp: less_Suc_eq)
  have 2: "map (derefEntry (h @ [[s]])) (dm @ [(date s, \<lparr> ref_date = date s,
                        ref_totalMinutes = fadd (Finite 0) (fdiv_by 60 (ofInt (duration s))),
                        ref_sessions = length h \<rparr>)]) = addSession (map (derefEntry h) dm) s"
    using None
    by (simp add: same addSession_new map_of_derefEntry_None)
       (simp add: derefEntry_def deref_def)
  have 3: "\<forall>a<base. (h @ [[s]]) ! a = h ! a"
    using bl by (simp add: nth_append)
  show ?thesis
    unfolding addSession_store_new [OF ok None] using 1 2 3 by simp
next
  case (Some r)
  have b: "\<forall>e\<in>set dm. base \<le> ref_sessions (snd e) \<and> ref_sessions (snd e) < length h"
    and bl: "base \<le> length h"
    and dk: "distinct (map fst dm)" and dr: "distinct (map (\<lambda>e. ref_sessions (snd e)) dm)"
    using ok unfolding bucketsOk_def by blast+
  have mem: "(date s, r) \<in> set dm" using Some by (rule map_of_SomeD)
  have rb: "base \<le> ref_sessions r" "ref_sessions r < length h"
    using b mem by auto
  let ?upd = "\<lambda>(k, dayData). if k = date s
             then (k, dayData\<lparr>ref_totalMinutes :=
                        fadd (ref_totalMinutes dayData) (fdiv_by 60 (ofInt (duration s)))\<rparr>)
             else (k, dayData)"
  let ?h' = "h[ref_sessions r := h ! ref_sessions r @ [s]]"
  have inj: "inj_on (\<lambda>e. ref_sessions (snd e)) (set dm)"
    using dr by (simp add: distinct_map)
  have keyinj: "inj_on fst (set dm)"
    using dk by (simp add: distinct_map)
  have k: "map fst (map ?upd dm) = map fst dm"
    by (induction dm) auto
  have rr: "map (\<lambda>e. ref_sessions (snd e)) (map ?upd dm) = map (\<lambda>e. ref_sessions (snd e)) dm"
    by (induction dm) auto
  have 1: "bucketsOk base ?h' (map ?upd dm)"
    unfolding bucketsOk_def k rr using b bl dk dr
    by (auto split: if_splits)
  have pt: "derefEntry ?h' (?upd e) =
      (\<lambda>(k, dayData). if k = date s
            then (k, dayData\<lparr>totalMinutes :=
                               fadd (totalMinutes dayData) (fdiv_by 60 (ofInt (duration s))),
                             dd_sessions := dd_sessions dayData @ [s]\<rparr>)
            else (k, dayData)) (derefEntry h e)" if e: "e \<in> set dm" for e
  proof (cases "fst e = date s")
    case True
    then have "e = (date s, r)"
      using keyinj e mem by (auto simp: inj_on_def)
    then show ?thesis
      using rb by (simp add: derefEntry_def deref_def)
  next
    case False
    then have "e \<noteq> (date s, r)" by auto
    then have "ref_sessions (snd e) \<noteq> ref_sessions r"
      using inj e mem by (auto simp: inj_on_def)
    then show ?thesis
      using False by (cases e) (simp add: derefEntry_def deref_def)
  qed
  have 2: "map (derefEntry ?h') (map ?upd dm) = addSession (map (derefEntry h) dm) s"
  proof -
    have "map_of (map (derefEntry h) dm) (date s) \<noteq> None"
      using Some by (simp add: map_of_derefEntry_None)
    then show ?thesis
      using pt by (simp add: addSession_old)
  qed
  have 3: "\<forall>a<base. ?h' ! a = h ! a"
    using rb by simp
  show ?thesis
    unfolding addSession_store_old [OF Some] using 1 2 3 by simp
qed

lemma foldl_addSession_store:
  assumes "bucketsOk base h dm"
  shows "bucketsOk base (snd (foldl addSession_store (dm, h) xs))
           (fst (foldl addSession_store (dm, h) xs))
       \<and> map (derefEntry (snd (foldl addSession_store (dm, h) xs)))
             (fst (foldl addSession_store (dm, h) xs)) =
           foldl addSession (map (derefEntry h) dm) xs
       \<and> (\<forall>a<base. snd (foldl addSession_store (dm, h) xs) ! a = h ! a)
       \<and> length h \<le> length (snd (foldl addSession_store (dm, h) xs))"
  using assms
proof (induction xs arbitrary: dm h)
  case Nil
  then show ?case by simp
next
  case (Cons x xs)
  obtain dm1 h1 where s1: "addSession_store (dm, h) x = (dm1, h1)"
    by (cases "addSession_store (dm, h) x") auto
  have st: "bucketsOk base h1 dm1"
    "map (derefEntry h1) dm1 = addSession (map (derefEntry h) dm) x"
    "\<forall>a<base. h1 ! a = h ! a" "length h \<le> length h1"
    using addSession_store_step [OF Cons.prems, of x] by (simp_all add: s1)
  from Cons.IH [OF st(1)] st(2,3,4) show ?case
    by (simp add: s1)
qed

lemma getDayData_store_refines:
  assumes "sessionsRef < length store"
  shows "(\<forall>a<length store. snd (getDayData_store c offset rng now store sessionsRef) ! a = store ! a)
       \<and> length store \<le> length (snd (getDayData_store c offset rng now store sessionsRef))
       \<and> map (deref (snd (getDayData_store c offset rng now store sessionsRef)))
             (fst (getDayData_store c offset rng now store sessionsRef)) =
           groupByDay c (filterByRange offset rng now (store ! sessionsRef))"
proof -
  let ?f = "filterByRange offset rng now (store ! sessionsRef)"
  let ?ms = "foldl addSession_store ([], store @ [?f]) ?f"
  have ok: "bucketsOk (length store) (store @ [?f]) []"
    by (simp add: bucketsOk_def)
  have f: "map (derefEntry (snd ?ms)) (fst ?ms) = foldl addSession [] ?f"
    "\<forall>a<length store. snd ?ms ! a = (store @ [?f]) ! a"
    "length (store @ [?f]) \<le> length (snd ?ms)"
    using foldl_addSession_store [OF ok, of ?f] by simp_all
  have v: "map (deref (snd ?ms)) (map snd (fst ?ms)) = map snd (foldl addSession [] ?f)"
    using f(1) [symmetric] by (simp add: derefEntry_def comp_def)
  have d: "dd_date (deref h r) = ref_date r" for h r by (simp add: deref_def)
  have "map (deref (snd ?ms)) (sortBy (\<lambda>a b. c (ref_date a) (ref_date b)) (map snd (fst ?ms))) =
      sortBy (\<lambda>a b. c (dd_date a) (dd_date b)) (map (deref (snd ?ms)) (map snd (fst ?ms)))"
    by (simp add: sortBy_map d)
  then have r: "map (deref (snd ?ms)) (sortBy (\<lambda>a b. c (ref_date a) (ref_date b)) (map snd (fst ?ms))) =
      groupByDay c ?f"
    by (simp only: v groupByDay_def)
  show ?thesis
    using f(2,3) r by (simp add: getDayData_store_def Let_def nth_append)
qed

subsection \<open>The scenario and the order of the sessions\<close>

lemma keys_scenario:
  "map fst (foldl addSession [] scenarioSessions) = [''2024-01-01'', ''2024-01-02'']"
  by (simp add: scenarioSessions_def scenarioSession_def addSession_keys)

lemma sum_scenario_01:
  "sumMinutes (filter (\<lambda>s. date s = ''2024-01-01'') scenarioSessions) = Finite 60"
  by code_simp

lemma sum_scenario_02:
  "sumMinutes (filter (\<lambda>s. date s = ''2024-01-02'') scenarioSessions) = Finite 60"
  by code_simp

lemma scenario_totals:
  assumes "c ''2024-01-01'' ''2024-01-02'' \<le> 0"
  shows "bucketTotals (groupByDay c scenarioSessions) =
    [(''2024-01-01'', Finite 60), (''2024-01-02'', Finite 60)]"
  using assms
  by (simp add: bucketTotals_def groupByDay_refines keys_scenario sortBy_def spec_dayData_def
      sum_scenario_01 sum_scenario_02)

lemma keys_drift: "map fst (foldl addSession [] driftSessions) = [''2024-01-01'']"
  by (simp add: driftSessions_def scenarioSession_def addSession_keys)

lemma keys_drift_rev: "map fst (foldl addSession [] (rev driftSessions)) = [''2024-01-01'']"
  by (simp add: driftSessions_def scenarioSession_def addSession_keys)

lemma sum_drift:
  "sumMinutes (filter (\<lambda>s. date s = ''2024-01-01'') driftSessions) =
     Finite (1351079888211149 / 2251799813685248)"
  by code_simp

lemma sum_drift_rev:
  "sumMinutes (filter (\<lambda>s. date s = ''2024-01-01'') (rev driftSessions)) =
     Finite (5404319552844595 / 9007199254740992)"
  by code_simp

lemma filterByRange_scenario:
  "filterByRange 0 Today 1704110400000 scenarioSessions = scenarioSessions"
  by code_simp

lemma filterByRange_scenario_year:
  "filterByRange 0 Year 1704110400000 scenarioSessions = scenarioSessions"
  by code_simp

lemma scenario_same_order_within_dates:
  "filter (\<lambda>s. date s = d) scenarioSessions = filter (\<lambda>s. date s = d) (rev scenarioSessions)"
  by (auto simp: scenarioSessions_def scenarioSession_def)

text \<open>
  C9 as the code has it. The grouping is a function of the filtered list and of the order
  \<open>localeCompare\<close> puts on the dates, and \<open>getDayData\<close> is the grouping of the filtered
  sessions. For a comparator that is a linear order on the dates that occur: two lists
  that are permutations of each other give the same dates in the same order and, date by
  date, the same sessions as multisets; two lists in which the sessions of each date stand
  in the same order give the same buckets, totals included. Every bucket holds the
  sessions of its date in list order, and its total is the sum of their minutes taken
  from left to right in double arithmetic. The dates of the buckets are the dates that
  occur, each once, ascending for the comparator. Over a store of arrays, \<open>getDayData\<close>
  writes no array that existed before the call, the list of sessions among them, its
  result read through the store is the grouping of the filtered list, and a second call
  gives the same result. The scenario of three sessions yields 60 minutes for 2024-01-01
  and 60 minutes for 2024-01-02 whenever the comparator puts 2024-01-01 first.
\<close>

theorem groupByDay_order_independent:
  "(mset xs = mset ys \<and> consistentOn (date ` set xs) c \<longrightarrow>
      map dd_date (groupByDay c xs) = map dd_date (groupByDay c ys)
      \<and> map (\<lambda>b. mset (dd_sessions b)) (groupByDay c xs) =
          map (\<lambda>b. mset (dd_sessions b)) (groupByDay c ys))
   \<and> ((\<forall>d. filter (\<lambda>s. date s = d) xs = filter (\<lambda>s. date s = d) ys)
        \<and> consistentOn (date ` set xs) c \<longrightarrow> groupByDay c xs = groupByDay c ys)
   \<and> (\<forall>b\<in>set (groupByDay c xs).
         dd_sessions b = filter (\<lambda>s. date s = dd_date b) xs
         \<and> totalMinutes b = sumMinutes (dd_sessions b))
   \<and> set (map dd_date (groupByDay c xs)) = date ` set xs
   \<and> distinct (map dd_date (groupByDay c xs))
   \<and> (consistentOn (date ` set xs) c \<longrightarrow>
        sorted_wrt (\<lambda>a b. c a b \<le> 0) (map dd_date (groupByDay c xs)))
   \<and> getDayData c offset st now =
       groupByDay c (filterByRange offset (timeRange st) now (sessions st))
   \<and> (sessionsRef < length store \<longrightarrow>
        (\<forall>a<length store.
            snd (getDayData_store c offset rng now store sessionsRef) ! a = store ! a)
        \<and> map (deref (snd (getDayData_store c offset rng now store sessionsRef)))
              (fst (getDayData_store c offset rng now store sessionsRef)) =
            groupByDay c (filterByRange offset rng now (store ! sessionsRef))
        \<and> map (deref (snd (getDayData_store c offset rng now
                   (snd (getDayData_store c offset rng now store sessionsRef)) sessionsRef)))
              (fst (getDayData_store c offset rng now
                   (snd (getDayData_store c offset rng now store sessionsRef)) sessionsRef)) =
            map (deref (snd (getDayData_store c offset rng now store sessionsRef)))
              (fst (getDayData_store c offset rng now store sessionsRef)))
   \<and> (c ''2024-01-01'' ''2024-01-02'' \<le> 0 \<longrightarrow>
        bucketTotals (groupByDay c scenarioSessions) =
          [(''2024-01-01'', Finite 60), (''2024-01-02'', Finite 60)])"
proof -
  have p1: "mset xs = mset ys \<and> consistentOn (date ` set xs) c \<longrightarrow>
      map dd_date (groupByDay c xs) = map dd_date (groupByDay c ys)
      \<and> map (\<lambda>b. mset (dd_sessions b)) (groupByDay c xs) =
          map (\<lambda>b. mset (dd_sessions b)) (groupByDay c ys)"
    using dates_groupByDay_perm members_groupByDay_perm by blast
  have p2: "(\<forall>d. filter (\<lambda>s. date s = d) xs = filter (\<lambda>s. date s = d) ys)
        \<and> consistentOn (date ` set xs) c \<longrightarrow> groupByDay c xs = groupByDay c ys"
    using groupByDay_same_order_within_dates by blast
  have p3: "\<forall>b\<in>set (groupByDay c xs).
         dd_sessions b = filter (\<lambda>s. date s = dd_date b) xs
         \<and> totalMinutes b = sumMinutes (dd_sessions b)"
    by (auto simp: groupByDay_refines spec_dayData_def)
  have p4: "consistentOn (date ` set xs) c \<longrightarrow>
        sorted_wrt (\<lambda>a b. c a b \<le> 0) (map dd_date (groupByDay c xs))"
    using foldl_addSession_keys [of xs]
    by (auto simp: dates_groupByDay intro!: sorted_sortBy [where D = "date ` set xs"])
  have p5: "getDayData c offset st now =
       groupByDay c (filterByRange offset (timeRange st) now (sessions st))"
    by (simp add: getDayData_def getFilteredSessions_def)
  have p6: "(\<forall>a<length store.
            snd (getDayData_store c offset rng now store sessionsRef) ! a = store ! a)
        \<and> map (deref (snd (getDayData_store c offset rng now store sessionsRef)))
              (fst (getDayData_store c offset rng now store sessionsRef)) =
            groupByDay c (filterByRange offset rng now (store ! sessionsRef))
        \<and> map (deref (snd (getDayData_store c offset rng now
                   (snd (getDayData_store c offset rng now store sessionsRef)) sessionsRef)))
              (fst (getDayData_store c offset rng now
                   (snd (getDayData_store c offset rng now store sessionsRef)) sessionsRef)) =
            map (deref (snd (getDayData_store c offset rng now store sessionsRef)))
              (fst (getDayData_store c offset rng now store sessionsRef))"
    if r: "sessionsRef < length store"
  proof -
    let ?R = "getDayData_store c offset rng now store sessionsRef"
    have a: "\<forall>a<length store. snd ?R ! a = store ! a" "length store \<le> length (snd ?R)"
      "map (deref (snd ?R)) (fst ?R) = groupByDay c (filterByRange offset rng now (store ! sessionsRef))"
      using getDayData_store_refines [OF r, of c offset rng now] by simp_all
    have r2: "sessionsRef < length (snd ?R)" using r a(2) by simp
    have "map (deref (snd (getDayData_store c offset rng now (snd ?R) sessionsRef)))
              (fst (getDayData_store c offset rng now (snd ?R) sessionsRef)) =
          groupByDay c (filterByRange offset rng now (snd ?R ! sessionsRef))"
      using getDayData_store_refines [OF r2, of c offset rng now] by simp
    also have "snd ?R ! sessionsRef = store ! sessionsRef" using a(1) r by simp
    finally show ?thesis using a(1,3) by simp
  qed
  have p7: "c ''2024-01-01'' ''2024-01-02'' \<le> 0 \<longrightarrow>
        bucketTotals (groupByDay c scenarioSessions) =
          [(''2024-01-01'', Finite 60), (''2024-01-02'', Finite 60)]"
    using scenario_totals by blast
  show ?thesis
    using p1 p2 p3 p4 p5 p6 p7 set_dates_groupByDay [of c xs] distinct_dates_groupByDay [of c xs]
    by blast
qed

theorem groupByDay_order_independent_witness:
  "bucketTotals (groupByDay codeUnitCompare (rev scenarioSessions)) =
     [(''2024-01-01'', Finite 60), (''2024-01-02'', Finite 60)]
   \<and> map (\<lambda>b. mset (dd_sessions b)) (groupByDay codeUnitCompare (rev driftSessions)) =
       map (\<lambda>b. mset (dd_sessions b)) (groupByDay codeUnitCompare driftSessions)
   \<and> bucketTotals (getDayData codeUnitCompare 0
        scenarioState 1704110400000) =
     [(''2024-01-01'', Finite 60), (''2024-01-02'', Finite 60)]
   \<and> snd (getDayData_store codeUnitCompare 0 Year 1704110400000 [scenarioSessions] 0) ! 0 =
       scenarioSessions
   \<and> bucketTotals (map (deref (snd (getDayData_store codeUnitCompare 0 Year 1704110400000
          [scenarioSessions] 0)))
        (fst (getDayData_store codeUnitCompare 0 Year 1704110400000 [scenarioSessions] 0))) =
     [(''2024-01-01'', Finite 60), (''2024-01-02'', Finite 60)]"
proof -
  have le: "codeUnitCompare ''2024-01-01'' ''2024-01-02'' \<le> 0" by code_simp
  have tr: "timeRange scenarioState = Today"
    by (simp add: scenarioState_def initialState_def)
  have ss: "sessions scenarioState = scenarioSessions" by (simp add: scenarioState_def)
  have r: "(0::nat) < length [scenarioSessions]" by simp
  have same: "\<forall>d. filter (\<lambda>s. date s = d) scenarioSessions =
      filter (\<lambda>s. date s = d) (rev scenarioSessions)"
    using scenario_same_order_within_dates by blast
  have perm: "mset (rev driftSessions) = mset driftSessions" by simp
  note t = groupByDay_order_independent [where c = codeUnitCompare and xs = scenarioSessions
      and ys = "rev scenarioSessions" and offset = 0 and now = 1704110400000
      and st = scenarioState and rng = Year
      and store = "[scenarioSessions]" and sessionsRef = 0]
  note u = groupByDay_order_independent [where c = codeUnitCompare and xs = "rev driftSessions"
      and ys = driftSessions]
  have a: "groupByDay codeUnitCompare scenarioSessions =
      groupByDay codeUnitCompare (rev scenarioSessions)"
    using t same consistentOn_codeUnitCompare by blast
  have b: "bucketTotals (groupByDay codeUnitCompare scenarioSessions) =
      [(''2024-01-01'', Finite 60), (''2024-01-02'', Finite 60)]"
    using t le by blast
  have c: "getDayData codeUnitCompare 0 scenarioState
      1704110400000 = groupByDay codeUnitCompare scenarioSessions"
    using t by (simp add: tr ss filterByRange_scenario)
  have d: "snd (getDayData_store codeUnitCompare 0 Year 1704110400000 [scenarioSessions] 0) ! 0 =
       scenarioSessions"
    using t r by simp
  have e: "map (deref (snd (getDayData_store codeUnitCompare 0 Year 1704110400000
          [scenarioSessions] 0)))
        (fst (getDayData_store codeUnitCompare 0 Year 1704110400000 [scenarioSessions] 0)) =
      groupByDay codeUnitCompare scenarioSessions"
    using t r by (simp add: filterByRange_scenario_year)
  have f: "map (\<lambda>b. mset (dd_sessions b)) (groupByDay codeUnitCompare (rev driftSessions)) =
       map (\<lambda>b. mset (dd_sessions b)) (groupByDay codeUnitCompare driftSessions)"
    using u perm consistentOn_codeUnitCompare by blast
  show ?thesis unfolding c e a [symmetric] using b d f by blast
qed

text \<open>
  C9 as the specification states it fails for the totals. Sessions of 6, 12 and 18
  seconds on one day sum to 0.6000000000000001 minutes in that order and to 0.6 minutes
  in the reverse order: the addition of doubles is not associative.
\<close>

theorem groupByDay_totals_depend_on_order:
  "bucketTotals (groupByDay codeUnitCompare driftSessions) =
     [(''2024-01-01'', Finite (1351079888211149 / 2251799813685248))]
   \<and> bucketTotals (groupByDay codeUnitCompare (rev driftSessions)) =
     [(''2024-01-01'', Finite (5404319552844595 / 9007199254740992))]
   \<and> mset (rev driftSessions) = mset driftSessions
   \<and> bucketTotals (groupByDay codeUnitCompare driftSessions) \<noteq>
       bucketTotals (groupByDay codeUnitCompare (rev driftSessions))"
  by (simp add: bucketTotals_def groupByDay_refines keys_drift keys_drift_rev sortBy_def
      spec_dayData_def sum_drift sum_drift_rev)

section \<open>The date of a session\<close>













end
